theory Spec2Isabelle
  imports Main "HOL-Library.Word"
begin

unbundle bit_operations_syntax

section \<open>The sleepme client: a shallow embedding of sleepme.go\<close>

text \<open>
  The package is a thin client over three packages of Go's standard library: net/http,
  encoding/json and fmt. Everything sleepme.go itself does (the order of its statements,
  its early returns, the struct declarations with their json tags) is translated below.
  The standard library is not part of the package. Its byte-level and numeric primitives
  (URL parsing, the HTTP round trip, the JSON scanner, float formatting) are taken as
  parameters, collected in the record \<open>stdlib\<close>; the structure-directed part of
  encoding/json (how a JSON value is stored into a struct with json tags, and how such a
  struct is written) follows the package documentation of encoding/json and is written out,
  because it is driven by the declarations of sleepme.go.

  Go functions return a value and an error side by side; the model returns the pair, with
  \<open>None\<close> for a nil pointer, a nil slice or a nil error.
\<close>

subsection \<open>strconv and fmt: decimal integers\<close>

text \<open>
  \<open>Itoa\<close> is the output of the verb \<open>%d\<close> and of encoding/json for an integer:
  an optional minus sign and the decimal digits, taken from the digit table as strconv does.
\<close>

definition digit_char :: "nat \<Rightarrow> char" where
  "digit_char d = ''0123456789'' ! d"

function formatDecimal :: "nat \<Rightarrow> string \<Rightarrow> string" where
  "formatDecimal n acc =
     (if n < 10 then digit_char n # acc
      else formatDecimal (n div 10) (digit_char (n mod 10) # acc))"
  by pat_completeness auto
termination
  by (relation "measure fst") auto

declare formatDecimal.simps [simp del]

definition Itoa :: "int \<Rightarrow> string" where
  "Itoa i = (if i < 0 then CHR ''-'' # formatDecimal (nat (- i)) [] else formatDecimal (nat i) [])"

text \<open>
  \<open>ParseInt s\<close> is \<open>strconv.ParseInt(s, 10, 64)\<close>: an optional sign, at least one
  decimal digit and nothing else, and a value that fits 64 bits; \<open>None\<close> is any error.
\<close>

definition digit_val :: "char \<Rightarrow> nat option" where
  "digit_val c =
     (let n = (of_char c :: nat) in if 48 \<le> n \<and> n \<le> 57 then Some (n - 48) else None)"

fun parseDigits :: "string \<Rightarrow> nat \<Rightarrow> nat option" where
  "parseDigits [] acc = Some acc"
| "parseDigits (c # cs) acc =
     (case digit_val c of None \<Rightarrow> None | Some d \<Rightarrow> parseDigits cs (acc * 10 + d))"

definition ParseInt :: "string \<Rightarrow> int option" where
  "ParseInt s =
     (let neg = (s \<noteq> [] \<and> hd s = CHR ''-'');
          ds = (if s \<noteq> [] \<and> (hd s = CHR ''-'' \<or> hd s = CHR ''+'') then tl s else s)
      in if ds = [] then None
         else case parseDigits ds 0 of
                None \<Rightarrow> None
              | Some n \<Rightarrow>
                  (let v = (if neg then - int n else int n)
                   in if - (2 ^ 63) \<le> v \<and> v < 2 ^ 63 then Some v else None))"

subsection \<open>Machine numbers\<close>

text \<open>
  Go's \<open>int\<close> on a 64-bit platform is a 64-bit word read as two's complement. A
  \<open>float64\<close> is its IEEE 754 bit pattern; the only thing the package needs to know of it
  is whether it is a number: the exponent bits (52 to 62) of an infinity or a NaN are all ones.
\<close>

type_synonym goint = "64 word"
type_synonym float64 = "64 word"

definition IsInfOrNaN :: "float64 \<Rightarrow> bool" where
  "IsInfOrNaN f = (drop_bit 52 f AND 0x7FF = 0x7FF)"

subsection \<open>Errors\<close>

text \<open>
  A Go \<open>error\<close> is an interface value; the constructors record where it was made.
  \<open>UrlError\<close> is what http.NewRequest returns for a URL that url.Parse rejects,
  \<open>TransportError\<close> what http.Client.Do returns, \<open>Errorf\<close> carries the message of
  fmt.Errorf, \<open>SyntaxError\<close> is any error of the JSON decoder before a complete value has
  been read (json.SyntaxError, io.EOF, io.ErrUnexpectedEOF), \<open>UnmarshalTypeError\<close> carries
  the description encoding/json gives of the JSON value that did not fit its Go target,
  \<open>UnsupportedValueError\<close> the float that has no JSON form, and \<open>OtherError\<close> is an
  error made by the caller (an option of \<open>New\<close>).
\<close>

datatype error =
    UrlError string
  | TransportError string
  | Errorf string
  | SyntaxError string
  | UnmarshalTypeError string
  | UnsupportedValueError float64
  | OtherError string

subsection \<open>JSON values\<close>

text \<open>
  A JSON value as the scanner of encoding/json delivers it: the members of an object in
  the order of the text (duplicates kept), a number as its literal (the decoder converts it
  only when it knows the Go type it goes to), a string with its escapes resolved.
\<close>

datatype json =
    JNull
  | JBool bool
  | JNumber string
  | JString string
  | JArray "json list"
  | JObject "(string \<times> json) list"

subsection \<open>net/http: requests and responses\<close>

text \<open>A \<open>context.Context\<close>: the background one, or one the caller made, known by a handle.\<close>

datatype gocontext = Background | CallerContext nat

text \<open>
  The body of a request is the JSON value whose encoding (followed by a newline, as
  json.Encoder writes it) fills the buffer handed to http.NewRequest. The header maps a
  canonical key to its values.
\<close>

record Request =
  Method :: string
  URL :: string
  Header :: "string \<rightharpoonup> string list"
  ReqBody :: "json option"
  Ctx :: gocontext

record Response =
  StatusCode :: int
  Body :: string

definition StatusOK :: int where
  "StatusOK = 200"

text \<open>An \<open>http.Client\<close> is modelled by its method \<open>Do\<close>.\<close>

type_synonym http_Client = "Request \<Rightarrow> string + Response"

subsection \<open>The standard library, as far as it is a parameter\<close>

text \<open>
  \<^item> \<open>url_ParseError u\<close>: the error of url.Parse on \<open>u\<close>, if it rejects it.
  \<^item> \<open>http_NewClient\<close>: the behaviour of a fresh \<open>&http.Client{}\<close>.
  \<^item> \<open>json_scan b\<close>: the first JSON value of the byte stream \<open>b\<close>, or the error of the
    decoder when the stream does not start with a complete JSON value.
  \<^item> \<open>json_readLen b\<close>: how many bytes of \<open>b\<close> the decoder takes from the reader.
  \<^item> \<open>json_foldName\<close>: the case folding by which a member name that equals no json tag
    is matched against the tags.
  \<^item> \<open>json_validString\<close>: a Go string as encoding/json writes it, every invalid UTF-8
    sequence replaced.
  \<^item> \<open>strconv_ParseFloat\<close>, \<open>strconv_FormatFloat\<close>: a number literal read as a
    float64 (\<open>None\<close> when it is malformed or out of range), and the literal encoding/json
    writes for a float64 that is a number.
\<close>

record stdlib =
  url_ParseError :: "string \<Rightarrow> string option"
  http_NewClient :: http_Client
  json_scan :: "string \<Rightarrow> string + json"
  json_readLen :: "string \<Rightarrow> nat"
  json_foldName :: "string \<Rightarrow> string"
  json_validString :: "string \<Rightarrow> string"
  strconv_ParseFloat :: "string \<Rightarrow> float64 option"
  strconv_FormatFloat :: "float64 \<Rightarrow> string"

subsection \<open>What a call does besides returning\<close>

text \<open>
  What a call does besides returning is listed in the order it happens: the request handed
  to the method \<open>Do\<close> of an HTTP client, the bytes of the response body that are read, and
  the closing of the response body (in the three operations the deferred
  \<open>resp.Body.Close()\<close>, which runs when the operation returns).
\<close>

datatype event = Sent Request | ReadBody nat | CloseBody

fun requests :: "event list \<Rightarrow> Request list" where
  "requests [] = []"
| "requests (Sent r # es) = r # requests es"
| "requests (ReadBody n # es) = requests es"
| "requests (CloseBody # es) = requests es"

fun bytesRead :: "event list \<Rightarrow> nat" where
  "bytesRead [] = 0"
| "bytesRead (Sent r # es) = bytesRead es"
| "bytesRead (ReadBody n # es) = n + bytesRead es"
| "bytesRead (CloseBody # es) = bytesRead es"

subsection \<open>Client construction\<close>

definition ProductionAPIEndpoint :: string where
  "ProductionAPIEndpoint = ''https://api.developer.sleep.me/v1''"

record Client =
  APIEndpoint :: string
  token :: string
  HTTPClient :: http_Client

text \<open>
  An option is a Go function \<open>func(*Client) error\<close>: it may change the client it is
  given, it may fail, and being any Go function it may do something besides (send a request
  through the client it is given, say): an option returns its outcome and the events of its
  call. The loop of \<open>New\<close> hands the client from one option to the next and returns at
  the first error; the events of \<open>New\<close> are those of the options it has called, in the
  order of the calls, and none of its own: the struct literal \<open>&http.Client{}\<close> stores
  a fresh HTTP client in the new client and does not call it.
\<close>

type_synonym option_func = "Client \<Rightarrow> (error + Client) \<times> event list"

fun applyOpts :: "option_func list \<Rightarrow> Client \<Rightarrow> (error + Client) \<times> event list" where
  "applyOpts [] c = (Inr c, [])"
| "applyOpts (opt # opts) c =
     (case opt c of
        (Inl err, es) \<Rightarrow> (Inl err, es)
      | (Inr c', es) \<Rightarrow> (let (r, es') = applyOpts opts c' in (r, es @ es')))"

definition New ::
  "stdlib \<Rightarrow> string \<Rightarrow> option_func list \<Rightarrow> (Client option \<times> error option) \<times> event list" where
  "New lib tok opts =
     (let c = \<lparr>APIEndpoint = ProductionAPIEndpoint, token = tok, HTTPClient = http_NewClient lib\<rparr>
      in case applyOpts opts c of
           (Inl err, es) \<Rightarrow> ((None, Some err), es)
         | (Inr c', es) \<Rightarrow> ((Some c', None), es))"

subsection \<open>encoding/json: storing a JSON value into a Go value\<close>

text \<open>
  The decoder first scans one complete JSON value (a syntax error stores nothing) and then
  stores it into its target. Storing follows the documentation of \<open>json.Unmarshal\<close>:
  a value that does not fit its target is skipped, the earliest such mismatch is remembered
  and returned at the end, and storing goes on; \<open>null\<close> sets a slice to nil and has no
  effect on a string, a number, a bool or a struct; a member of an object goes to the field
  whose json tag equals its name, or else to the first field whose tag equals it under case
  folding, and is ignored when there is none; an array resets the slice to length zero and
  appends its elements, each stored into a zero value.
  Every store function takes the JSON value, the current Go value and the remembered
  error, and returns the new Go value and the remembered error.
\<close>

definition saveError :: "error \<Rightarrow> error option \<Rightarrow> error option" where
  "saveError e s = (case s of None \<Rightarrow> Some e | Some e0 \<Rightarrow> Some e0)"

fun valueKind :: "json \<Rightarrow> string" where
  "valueKind JNull = ''null''"
| "valueKind (JBool b) = ''bool''"
| "valueKind (JNumber n) = ''number''"
| "valueKind (JString x) = ''string''"
| "valueKind (JArray xs) = ''array''"
| "valueKind (JObject kvs) = ''object''"

definition storeString :: "json \<Rightarrow> string \<Rightarrow> error option \<Rightarrow> string \<times> error option" where
  "storeString v cur s =
     (case v of
        JNull \<Rightarrow> (cur, s)
      | JString x \<Rightarrow> (x, s)
      | _ \<Rightarrow> (cur, saveError (UnmarshalTypeError (valueKind v)) s))"

definition storeBool :: "json \<Rightarrow> bool \<Rightarrow> error option \<Rightarrow> bool \<times> error option" where
  "storeBool v cur s =
     (case v of
        JNull \<Rightarrow> (cur, s)
      | JBool b \<Rightarrow> (b, s)
      | _ \<Rightarrow> (cur, saveError (UnmarshalTypeError (valueKind v)) s))"

definition storeInt :: "json \<Rightarrow> goint \<Rightarrow> error option \<Rightarrow> goint \<times> error option" where
  "storeInt v cur s =
     (case v of
        JNull \<Rightarrow> (cur, s)
      | JNumber lit \<Rightarrow>
          (case ParseInt lit of
             Some n \<Rightarrow> (word_of_int n, s)
           | None \<Rightarrow> (cur, saveError (UnmarshalTypeError (''number '' @ lit)) s))
      | _ \<Rightarrow> (cur, saveError (UnmarshalTypeError (valueKind v)) s))"

definition storeFloat :: "stdlib \<Rightarrow> json \<Rightarrow> float64 \<Rightarrow> error option \<Rightarrow> float64 \<times> error option" where
  "storeFloat lib v cur s =
     (case v of
        JNull \<Rightarrow> (cur, s)
      | JNumber lit \<Rightarrow>
          (case strconv_ParseFloat lib lit of
             Some f \<Rightarrow> (f, s)
           | None \<Rightarrow> (cur, saveError (UnmarshalTypeError (''number '' @ lit)) s))
      | _ \<Rightarrow> (cur, saveError (UnmarshalTypeError (valueKind v)) s))"

fun storeElems ::
  "(json \<Rightarrow> 'a \<Rightarrow> error option \<Rightarrow> 'a \<times> error option) \<Rightarrow> 'a \<Rightarrow> json list \<Rightarrow> error option
     \<Rightarrow> 'a list \<times> error option" where
  "storeElems st z [] s = ([], s)"
| "storeElems st z (x # xs) s =
     (let (y, s1) = st x z s; (ys, s2) = storeElems st z xs s1 in (y # ys, s2))"

definition storeSlice ::
  "(json \<Rightarrow> 'a \<Rightarrow> error option \<Rightarrow> 'a \<times> error option) \<Rightarrow> 'a \<Rightarrow> json \<Rightarrow> 'a list option
     \<Rightarrow> error option \<Rightarrow> 'a list option \<times> error option" where
  "storeSlice st z v cur s =
     (case v of
        JNull \<Rightarrow> (None, s)
      | JArray xs \<Rightarrow> (let (ys, s1) = storeElems st z xs s in (Some ys, s1))
      | _ \<Rightarrow> (cur, saveError (UnmarshalTypeError (valueKind v)) s))"

definition findField :: "stdlib \<Rightarrow> string list \<Rightarrow> string \<Rightarrow> string option" where
  "findField lib tags key =
     (if key \<in> set tags then Some key
      else find (\<lambda>t. json_foldName lib t = json_foldName lib key) tags)"

fun storeMembers ::
  "(string \<Rightarrow> json \<Rightarrow> 'a \<Rightarrow> error option \<Rightarrow> 'a \<times> error option) \<Rightarrow> (string \<times> json) list
     \<Rightarrow> 'a \<Rightarrow> error option \<Rightarrow> 'a \<times> error option" where
  "storeMembers f [] a s = (a, s)"
| "storeMembers f ((k, v) # kvs) a s = (let (a1, s1) = f k v a s in storeMembers f kvs a1 s1)"

definition storeStruct ::
  "(string \<Rightarrow> json \<Rightarrow> 'a \<Rightarrow> error option \<Rightarrow> 'a \<times> error option) \<Rightarrow> json \<Rightarrow> 'a \<Rightarrow> error option
     \<Rightarrow> 'a \<times> error option" where
  "storeStruct f v a s =
     (case v of
        JNull \<Rightarrow> (a, s)
      | JObject kvs \<Rightarrow> storeMembers f kvs a s
      | _ \<Rightarrow> (a, saveError (UnmarshalTypeError (valueKind v)) s))"

text \<open>
  \<open>Decode lib store body target\<close> is \<open>json.NewDecoder(body).Decode(&target)\<close>
  for a target whose type has the store function \<open>store\<close>.
\<close>

definition Decode ::
  "stdlib \<Rightarrow> (json \<Rightarrow> 'a \<Rightarrow> error option \<Rightarrow> 'a \<times> error option) \<Rightarrow> string \<Rightarrow> 'a \<Rightarrow> 'a \<times> error option" where
  "Decode lib store body target =
     (case json_scan lib body of
        Inl msg \<Rightarrow> (target, Some (SyntaxError msg))
      | Inr v \<Rightarrow> store v target None)"

subsection \<open>encoding/json: writing a Go value\<close>

text \<open>
  A string is written with its invalid UTF-8 replaced, an integer in decimal, a float64
  that is a number as strconv formats it; an infinity or a NaN is an
  \<open>UnsupportedValueError\<close>. The members of a struct are written in the order of its
  fields, and the first error ends the encoding. A member is given with \<open>None\<close> when its
  field has the option \<open>omitempty\<close> and is a nil pointer: it is left out.
\<close>

definition encodeString :: "stdlib \<Rightarrow> string \<Rightarrow> json" where
  "encodeString lib x = JString (json_validString lib x)"

definition encodeInt :: "goint \<Rightarrow> json" where
  "encodeInt n = JNumber (Itoa (sint n))"

definition encodeFloat :: "stdlib \<Rightarrow> float64 \<Rightarrow> error + json" where
  "encodeFloat lib f =
     (if IsInfOrNaN f then Inl (UnsupportedValueError f)
      else Inr (JNumber (strconv_FormatFloat lib f)))"

fun encodeMembers :: "(string \<times> (error + json) option) list \<Rightarrow> error + (string \<times> json) list" where
  "encodeMembers [] = Inr []"
| "encodeMembers ((k, None) # ms) = encodeMembers ms"
| "encodeMembers ((k, Some (Inl e)) # ms) = Inl e"
| "encodeMembers ((k, Some (Inr v)) # ms) =
     (case encodeMembers ms of Inl e \<Rightarrow> Inl e | Inr kvs \<Rightarrow> Inr ((k, v) # kvs))"

definition encodeStruct :: "(string \<times> (error + json) option) list \<Rightarrow> error + json" where
  "encodeStruct ms = (case encodeMembers ms of Inl e \<Rightarrow> Inl e | Inr kvs \<Rightarrow> Inr (JObject kvs))"

subsection \<open>Device\<close>

text \<open>A slice is a list, or \<open>None\<close> when it is nil.\<close>

record Device =
  ID :: string
  Name :: string
  Attachments :: "string list option"

definition Device_zero :: Device where
  "Device_zero = \<lparr>ID = [], Name = [], Attachments = None\<rparr>"

definition Device_tags :: "string list" where
  "Device_tags = [''id'', ''name'', ''attachments'']"

definition storeDeviceField ::
  "stdlib \<Rightarrow> string \<Rightarrow> json \<Rightarrow> Device \<Rightarrow> error option \<Rightarrow> Device \<times> error option" where
  "storeDeviceField lib k v d s =
     (case findField lib Device_tags k of
        None \<Rightarrow> (d, s)
      | Some t \<Rightarrow>
          if t = ''id'' then (let (x, s1) = storeString v (ID d) s in (d\<lparr>ID := x\<rparr>, s1))
          else if t = ''name'' then (let (x, s1) = storeString v (Name d) s in (d\<lparr>Name := x\<rparr>, s1))
          else if t = ''attachments'' then
            (let (x, s1) = storeSlice storeString [] v (Attachments d) s in (d\<lparr>Attachments := x\<rparr>, s1))
          else (d, s))"

definition storeDevice :: "stdlib \<Rightarrow> json \<Rightarrow> Device \<Rightarrow> error option \<Rightarrow> Device \<times> error option" where
  "storeDevice lib = storeStruct (storeDeviceField lib)"

definition storeDevices ::
  "stdlib \<Rightarrow> json \<Rightarrow> Device list option \<Rightarrow> error option \<Rightarrow> Device list option \<times> error option" where
  "storeDevices lib = storeSlice (storeDevice lib) Device_zero"

subsection \<open>DeviceDetails\<close>

text \<open>
  The three anonymous structs nested in \<open>DeviceDetails\<close> are records of their own; their
  fields carry the name of the group in front, as in the Go path \<open>Control.SetTemperatureF\<close>.
\<close>

record DeviceDetails_About =
  About_FirmwareVersion :: string
  About_IpAddress :: string
  About_LanAddress :: string
  About_MacAddress :: string
  About_Model :: string
  About_SerialNumber :: string

record DeviceDetails_Control =
  Control_BrightnessLevel :: goint
  Control_DisplayTemperatureUnit :: string
  Control_SetTemperatureC :: goint
  Control_SetTemperatureF :: goint
  Control_ThermalControlStatus :: string
  Control_TimeZone :: string

record DeviceDetails_Status =
  Status_IsConnected :: bool
  Status_IsWaterLow :: bool
  Status_WaterLevel :: goint
  Status_WaterTemperatureF :: goint
  Status_WaterTemperatureC :: float64

record DeviceDetails =
  About :: DeviceDetails_About
  Control :: DeviceDetails_Control
  Status :: DeviceDetails_Status

definition DeviceDetails_zero :: DeviceDetails where
  "DeviceDetails_zero =
     \<lparr>About = \<lparr>About_FirmwareVersion = [], About_IpAddress = [], About_LanAddress = [],
               About_MacAddress = [], About_Model = [], About_SerialNumber = []\<rparr>,
      Control = \<lparr>Control_BrightnessLevel = 0, Control_DisplayTemperatureUnit = [],
                 Control_SetTemperatureC = 0, Control_SetTemperatureF = 0,
                 Control_ThermalControlStatus = [], Control_TimeZone = []\<rparr>,
      Status = \<lparr>Status_IsConnected = False, Status_IsWaterLow = False, Status_WaterLevel = 0,
                Status_WaterTemperatureF = 0, Status_WaterTemperatureC = 0\<rparr>\<rparr>"

definition About_tags :: "string list" where
  "About_tags = [''firmware_version'', ''ip_address'', ''lan_address'', ''mac_address'',
                 ''model'', ''serial_number'']"

definition Control_tags :: "string list" where
  "Control_tags = [''brightness_level'', ''display_temperature_unit'', ''set_temperature_c'',
                   ''set_temperature_f'', ''thermal_control_status'', ''time_zone'']"

definition Status_tags :: "string list" where
  "Status_tags = [''is_connected'', ''is_water_low'', ''water_level'', ''water_temperature_f'',
                  ''water_temperature_c'']"

definition DeviceDetails_tags :: "string list" where
  "DeviceDetails_tags = [''about'', ''control'', ''status'']"

definition storeAboutField ::
  "stdlib \<Rightarrow> string \<Rightarrow> json \<Rightarrow> DeviceDetails_About \<Rightarrow> error option
     \<Rightarrow> DeviceDetails_About \<times> error option" where
  "storeAboutField lib k v a s =
     (case findField lib About_tags k of
        None \<Rightarrow> (a, s)
      | Some t \<Rightarrow>
          if t = ''firmware_version'' then
            (let (x, s1) = storeString v (About_FirmwareVersion a) s in (a\<lparr>About_FirmwareVersion := x\<rparr>, s1))
          else if t = ''ip_address'' then
            (let (x, s1) = storeString v (About_IpAddress a) s in (a\<lparr>About_IpAddress := x\<rparr>, s1))
          else if t = ''lan_address'' then
            (let (x, s1) = storeString v (About_LanAddress a) s in (a\<lparr>About_LanAddress := x\<rparr>, s1))
          else if t = ''mac_address'' then
            (let (x, s1) = storeString v (About_MacAddress a) s in (a\<lparr>About_MacAddress := x\<rparr>, s1))
          else if t = ''model'' then
            (let (x, s1) = storeString v (About_Model a) s in (a\<lparr>About_Model := x\<rparr>, s1))
          else if t = ''serial_number'' then
            (let (x, s1) = storeString v (About_SerialNumber a) s in (a\<lparr>About_SerialNumber := x\<rparr>, s1))
          else (a, s))"

definition storeControlField ::
  "stdlib \<Rightarrow> string \<Rightarrow> json \<Rightarrow> DeviceDetails_Control \<Rightarrow> error option
     \<Rightarrow> DeviceDetails_Control \<times> error option" where
  "storeControlField lib k v c s =
     (case findField lib Control_tags k of
        None \<Rightarrow> (c, s)
      | Some t \<Rightarrow>
          if t = ''brightness_level'' then
            (let (x, s1) = storeInt v (Control_BrightnessLevel c) s in (c\<lparr>Control_BrightnessLevel := x\<rparr>, s1))
          else if t = ''display_temperature_unit'' then
            (let (x, s1) = storeString v (Control_DisplayTemperatureUnit c) s
             in (c\<lparr>Control_DisplayTemperatureUnit := x\<rparr>, s1))
          else if t = ''set_temperature_c'' then
            (let (x, s1) = storeInt v (Control_SetTemperatureC c) s in (c\<lparr>Control_SetTemperatureC := x\<rparr>, s1))
          else if t = ''set_temperature_f'' then
            (let (x, s1) = storeInt v (Control_SetTemperatureF c) s in (c\<lparr>Control_SetTemperatureF := x\<rparr>, s1))
          else if t = ''thermal_control_status'' then
            (let (x, s1) = storeString v (Control_ThermalControlStatus c) s
             in (c\<lparr>Control_ThermalControlStatus := x\<rparr>, s1))
          else if t = ''time_zone'' then
            (let (x, s1) = storeString v (Control_TimeZone c) s in (c\<lparr>Control_TimeZone := x\<rparr>, s1))
          else (c, s))"

definition storeStatusField ::
  "stdlib \<Rightarrow> string \<Rightarrow> json \<Rightarrow> DeviceDetails_Status \<Rightarrow> error option
     \<Rightarrow> DeviceDetails_Status \<times> error option" where
  "storeStatusField lib k v c s =
     (case findField lib Status_tags k of
        None \<Rightarrow> (c, s)
      | Some t \<Rightarrow>
          if t = ''is_connected'' then
            (let (x, s1) = storeBool v (Status_IsConnected c) s in (c\<lparr>Status_IsConnected := x\<rparr>, s1))
          else if t = ''is_water_low'' then
            (let (x, s1) = storeBool v (Status_IsWaterLow c) s in (c\<lparr>Status_IsWaterLow := x\<rparr>, s1))
          else if t = ''water_level'' then
            (let (x, s1) = storeInt v (Status_WaterLevel c) s in (c\<lparr>Status_WaterLevel := x\<rparr>, s1))
          else if t = ''water_temperature_f'' then
            (let (x, s1) = storeInt v (Status_WaterTemperatureF c) s in (c\<lparr>Status_WaterTemperatureF := x\<rparr>, s1))
          else if t = ''water_temperature_c'' then
            (let (x, s1) = storeFloat lib v (Status_WaterTemperatureC c) s
             in (c\<lparr>Status_WaterTemperatureC := x\<rparr>, s1))
          else (c, s))"

definition storeDeviceDetailsField ::
  "stdlib \<Rightarrow> string \<Rightarrow> json \<Rightarrow> DeviceDetails \<Rightarrow> error option \<Rightarrow> DeviceDetails \<times> error option" where
  "storeDeviceDetailsField lib k v d s =
     (case findField lib DeviceDetails_tags k of
        None \<Rightarrow> (d, s)
      | Some t \<Rightarrow>
          if t = ''about'' then
            (let (x, s1) = storeStruct (storeAboutField lib) v (About d) s in (d\<lparr>About := x\<rparr>, s1))
          else if t = ''control'' then
            (let (x, s1) = storeStruct (storeControlField lib) v (Control d) s in (d\<lparr>Control := x\<rparr>, s1))
          else if t = ''status'' then
            (let (x, s1) = storeStruct (storeStatusField lib) v (Status d) s in (d\<lparr>Status := x\<rparr>, s1))
          else (d, s))"

definition storeDeviceDetails ::
  "stdlib \<Rightarrow> json \<Rightarrow> DeviceDetails \<Rightarrow> error option \<Rightarrow> DeviceDetails \<times> error option" where
  "storeDeviceDetails lib = storeStruct (storeDeviceDetailsField lib)"

text \<open>
  \<open>Marshal_DeviceDetails\<close> is \<open>json.Marshal\<close> of a \<open>DeviceDetails\<close>: the json tags
  of the declaration, none of them with \<open>omitempty\<close>.
\<close>

definition Marshal_About :: "stdlib \<Rightarrow> DeviceDetails_About \<Rightarrow> error + json" where
  "Marshal_About lib a = encodeStruct
     [(''firmware_version'', Some (Inr (encodeString lib (About_FirmwareVersion a)))),
      (''ip_address'', Some (Inr (encodeString lib (About_IpAddress a)))),
      (''lan_address'', Some (Inr (encodeString lib (About_LanAddress a)))),
      (''mac_address'', Some (Inr (encodeString lib (About_MacAddress a)))),
      (''model'', Some (Inr (encodeString lib (About_Model a)))),
      (''serial_number'', Some (Inr (encodeString lib (About_SerialNumber a))))]"

definition Marshal_Control :: "stdlib \<Rightarrow> DeviceDetails_Control \<Rightarrow> error + json" where
  "Marshal_Control lib c = encodeStruct
     [(''brightness_level'', Some (Inr (encodeInt (Control_BrightnessLevel c)))),
      (''display_temperature_unit'', Some (Inr (encodeString lib (Control_DisplayTemperatureUnit c)))),
      (''set_temperature_c'', Some (Inr (encodeInt (Control_SetTemperatureC c)))),
      (''set_temperature_f'', Some (Inr (encodeInt (Control_SetTemperatureF c)))),
      (''thermal_control_status'', Some (Inr (encodeString lib (Control_ThermalControlStatus c)))),
      (''time_zone'', Some (Inr (encodeString lib (Control_TimeZone c))))]"

definition Marshal_Status :: "stdlib \<Rightarrow> DeviceDetails_Status \<Rightarrow> error + json" where
  "Marshal_Status lib c = encodeStruct
     [(''is_connected'', Some (Inr (JBool (Status_IsConnected c)))),
      (''is_water_low'', Some (Inr (JBool (Status_IsWaterLow c)))),
      (''water_level'', Some (Inr (encodeInt (Status_WaterLevel c)))),
      (''water_temperature_f'', Some (Inr (encodeInt (Status_WaterTemperatureF c)))),
      (''water_temperature_c'', Some (encodeFloat lib (Status_WaterTemperatureC c)))]"

definition Marshal_DeviceDetails :: "stdlib \<Rightarrow> DeviceDetails \<Rightarrow> error + json" where
  "Marshal_DeviceDetails lib d = encodeStruct
     [(''about'', Some (Marshal_About lib (About d))),
      (''control'', Some (Marshal_Control lib (Control d))),
      (''status'', Some (Marshal_Status lib (Status d)))]"

subsection \<open>UpdateRequest\<close>

type_synonym ThermalControlStatus = string

definition ThermalControlStatusActive :: ThermalControlStatus where
  "ThermalControlStatusActive = ''active''"

definition ThermalControlStatusStandby :: ThermalControlStatus where
  "ThermalControlStatusStandby = ''standby''"

type_synonym DisplayTemperatureUnit = string

definition DisplayTemperatureUnitC :: DisplayTemperatureUnit where
  "DisplayTemperatureUnitC = ''c''"

definition DisplayTemperatureUnitF :: DisplayTemperatureUnit where
  "DisplayTemperatureUnitF = ''f''"

text \<open>Every field is a pointer: \<open>None\<close> is nil.\<close>

record UpdateRequest =
  ThermalControlStatus :: "ThermalControlStatus option"
  SetTemperatureF :: "float64 option"
  SetTemperatureC :: "float64 option"
  DisplayTemperatureUnit :: "DisplayTemperatureUnit option"
  TimeZone :: "string option"

text \<open>\<open>json.NewEncoder(&bs).Encode(r)\<close>: every tag carries \<open>omitempty\<close>.\<close>

definition Encode_UpdateRequest :: "stdlib \<Rightarrow> UpdateRequest \<Rightarrow> error + json" where
  "Encode_UpdateRequest lib r = encodeStruct
     [(''thermal_control_status'', map_option (\<lambda>x. Inr (encodeString lib x)) (ThermalControlStatus r)),
      (''set_temperature_f'', map_option (encodeFloat lib) (SetTemperatureF r)),
      (''set_temperature_c'', map_option (encodeFloat lib) (SetTemperatureC r)),
      (''display_temperature_unit'', map_option (\<lambda>x. Inr (encodeString lib x)) (DisplayTemperatureUnit r)),
      (''time_zone'', map_option (\<lambda>x. Inr (encodeString lib x)) (TimeZone r))]"

subsection \<open>The three operations\<close>

text \<open>
  \<open>http.NewRequest\<close> fails when url.Parse rejects the URL (the methods the package
  passes, GET and PATCH, are valid); the request it returns has an empty header and the
  background context. \<open>Header.Set\<close> replaces the values of a key; the three keys the
  package sets are already in canonical form. The context handed to an operation is not nil.
\<close>

definition NewRequest :: "stdlib \<Rightarrow> string \<Rightarrow> string \<Rightarrow> json option \<Rightarrow> error + Request" where
  "NewRequest lib method url body =
     (case url_ParseError lib url of
        Some msg \<Rightarrow> Inl (UrlError msg)
      | None \<Rightarrow>
          Inr \<lparr>Method = method, URL = url, Header = Map.empty, ReqBody = body, Ctx = Background\<rparr>)"

definition Header_Set :: "Request \<Rightarrow> string \<Rightarrow> string \<Rightarrow> Request" where
  "Header_Set req k v = req\<lparr>Header := (Header req)(k \<mapsto> [v])\<rparr>"

definition WithContext :: "Request \<Rightarrow> gocontext \<Rightarrow> Request" where
  "WithContext req ctx = req\<lparr>Ctx := ctx\<rparr>"

text \<open>
  In \<open>return res, json.NewDecoder(resp.Body).Decode(&res)\<close> the call is evaluated before
  the variable \<open>res\<close> is read, as the Go compiler orders it and as the package's test
  relies on: the slice returned is the decoded one.
\<close>

definition ListDevices ::
  "stdlib \<Rightarrow> Client \<Rightarrow> gocontext \<Rightarrow> (Device list option \<times> error option) \<times> event list" where
  "ListDevices lib c ctx =
     (case NewRequest lib ''GET'' (APIEndpoint c @ ''/devices'') None of
        Inl err \<Rightarrow> ((None, Some err), [])
      | Inr req0 \<Rightarrow>
          (let req1 = Header_Set req0 ''Accept'' ''application/json'';
               req2 = Header_Set req1 ''Authorization'' (''Bearer '' @ token c);
               req = WithContext req2 ctx
           in case HTTPClient c req of
                Inl msg \<Rightarrow> ((None, Some (TransportError msg)), [Sent req])
              | Inr resp \<Rightarrow>
                  if StatusCode resp \<noteq> StatusOK then
                    ((None, Some (Errorf (''expected 200, got '' @ Itoa (StatusCode resp)))),
                     [Sent req, CloseBody])
                  else
                    (Decode lib (storeDevices lib) (Body resp) None,
                     [Sent req, ReadBody (json_readLen lib (Body resp)), CloseBody])))"

definition Get ::
  "stdlib \<Rightarrow> Client \<Rightarrow> gocontext \<Rightarrow> string \<Rightarrow> (DeviceDetails option \<times> error option) \<times> event list" where
  "Get lib c ctx deviceID =
     (case NewRequest lib ''GET'' (APIEndpoint c @ ''/devices/'' @ deviceID) None of
        Inl err \<Rightarrow> ((None, Some err), [])
      | Inr req0 \<Rightarrow>
          (let req1 = Header_Set req0 ''Accept'' ''application/json'';
               req2 = Header_Set req1 ''Authorization'' (''Bearer '' @ token c);
               req = WithContext req2 ctx
           in case HTTPClient c req of
                Inl msg \<Rightarrow> ((None, Some (TransportError msg)), [Sent req])
              | Inr resp \<Rightarrow>
                  if StatusCode resp \<noteq> StatusOK then
                    ((None, Some (Errorf (''expected 200, got '' @ Itoa (StatusCode resp)))),
                     [Sent req, CloseBody])
                  else
                    (let (res, err) = Decode lib (storeDeviceDetails lib) (Body resp) DeviceDetails_zero
                     in ((Some res, err),
                         [Sent req, ReadBody (json_readLen lib (Body resp)), CloseBody]))))"

definition Update ::
  "stdlib \<Rightarrow> Client \<Rightarrow> gocontext \<Rightarrow> string \<Rightarrow> UpdateRequest \<Rightarrow> error option \<times> event list" where
  "Update lib c ctx deviceID r =
     (case Encode_UpdateRequest lib r of
        Inl err \<Rightarrow> (Some err, [])
      | Inr bs \<Rightarrow>
          (case NewRequest lib ''PATCH'' (APIEndpoint c @ ''/devices/'' @ deviceID) (Some bs) of
             Inl err \<Rightarrow> (Some err, [])
           | Inr req0 \<Rightarrow>
               (let req1 = Header_Set req0 ''Content-Type'' ''application/json'';
                    req2 = Header_Set req1 ''Authorization'' (''Bearer '' @ token c);
                    req = WithContext req2 ctx
                in case HTTPClient c req of
                     Inl msg \<Rightarrow> (Some (TransportError msg), [Sent req])
                   | Inr resp \<Rightarrow>
                       if StatusCode resp \<noteq> StatusOK then
                         (Some (Errorf (''expected 200, got '' @ Itoa (StatusCode resp))),
                          [Sent req, CloseBody])
                       else (None, [Sent req, CloseBody]))))"

subsection \<open>net/url: where a URL is cut\<close>

text \<open>
  url.Parse first cuts the fragment off at the first \<open>#\<close> and then the query at the
  first \<open>?\<close> of what is left (\<open>strings.Cut\<close>); the rest holds the scheme, the host and
  the path. \<open>cut\<close> is \<open>strings.Cut\<close> without its flag.
\<close>

definition cut :: "char \<Rightarrow> string \<Rightarrow> string \<times> string" where
  "cut sep x = (takeWhile (\<lambda>c. c \<noteq> sep) x, drop 1 (dropWhile (\<lambda>c. c \<noteq> sep) x))"

definition url_Fragment :: "string \<Rightarrow> string" where
  "url_Fragment u = snd (cut CHR ''#'' u)"

definition url_RawQuery :: "string \<Rightarrow> string" where
  "url_RawQuery u = snd (cut CHR ''?'' (fst (cut CHR ''#'' u)))"

definition url_beforeQuery :: "string \<Rightarrow> string" where
  "url_beforeQuery u = fst (cut CHR ''?'' (fst (cut CHR ''#'' u)))"

subsection \<open>The shape a JSON value must have to be stored without an error\<close>

text \<open>
  These predicates follow the words of the documentation of \<open>json.Unmarshal\<close>, not the
  store functions: \<open>null\<close> fits every target, a string fits a string, \<open>true\<close> and
  \<open>false\<close> fit a bool, a number fits an integer when strconv can read its literal as one,
  an array fits a slice when each element fits, an object fits a struct when every member
  that goes to a field fits that field.
\<close>

definition fitsString :: "json \<Rightarrow> bool" where
  "fitsString v = (case v of JNull \<Rightarrow> True | JString x \<Rightarrow> True | _ \<Rightarrow> False)"

definition fitsBool :: "json \<Rightarrow> bool" where
  "fitsBool v = (case v of JNull \<Rightarrow> True | JBool b \<Rightarrow> True | _ \<Rightarrow> False)"

definition fitsInt :: "json \<Rightarrow> bool" where
  "fitsInt v = (case v of JNull \<Rightarrow> True | JNumber lit \<Rightarrow> ParseInt lit \<noteq> None | _ \<Rightarrow> False)"

definition fitsFloat :: "stdlib \<Rightarrow> json \<Rightarrow> bool" where
  "fitsFloat lib v =
     (case v of JNull \<Rightarrow> True | JNumber lit \<Rightarrow> strconv_ParseFloat lib lit \<noteq> None | _ \<Rightarrow> False)"

definition fitsSlice :: "(json \<Rightarrow> bool) \<Rightarrow> json \<Rightarrow> bool" where
  "fitsSlice fit v = (case v of JNull \<Rightarrow> True | JArray xs \<Rightarrow> list_all fit xs | _ \<Rightarrow> False)"

definition fitsStruct :: "(string \<Rightarrow> json \<Rightarrow> bool) \<Rightarrow> json \<Rightarrow> bool" where
  "fitsStruct fit v =
     (case v of JNull \<Rightarrow> True | JObject kvs \<Rightarrow> list_all (\<lambda>(k, x). fit k x) kvs | _ \<Rightarrow> False)"

definition fitsDeviceField :: "stdlib \<Rightarrow> string \<Rightarrow> json \<Rightarrow> bool" where
  "fitsDeviceField lib k v =
     (case findField lib Device_tags k of
        None \<Rightarrow> True
      | Some t \<Rightarrow>
          if t = ''id'' \<or> t = ''name'' then fitsString v
          else if t = ''attachments'' then fitsSlice fitsString v
          else True)"

definition fitsDevices :: "stdlib \<Rightarrow> json \<Rightarrow> bool" where
  "fitsDevices lib = fitsSlice (fitsStruct (fitsDeviceField lib))"

definition fitsAboutField :: "stdlib \<Rightarrow> string \<Rightarrow> json \<Rightarrow> bool" where
  "fitsAboutField lib k v = (case findField lib About_tags k of None \<Rightarrow> True | Some t \<Rightarrow> fitsString v)"

definition fitsControlField :: "stdlib \<Rightarrow> string \<Rightarrow> json \<Rightarrow> bool" where
  "fitsControlField lib k v =
     (case findField lib Control_tags k of
        None \<Rightarrow> True
      | Some t \<Rightarrow>
          if t = ''brightness_level'' \<or> t = ''set_temperature_c'' \<or> t = ''set_temperature_f''
          then fitsInt v else fitsString v)"

definition fitsStatusField :: "stdlib \<Rightarrow> string \<Rightarrow> json \<Rightarrow> bool" where
  "fitsStatusField lib k v =
     (case findField lib Status_tags k of
        None \<Rightarrow> True
      | Some t \<Rightarrow>
          if t = ''is_connected'' \<or> t = ''is_water_low'' then fitsBool v
          else if t = ''water_level'' \<or> t = ''water_temperature_f'' then fitsInt v
          else fitsFloat lib v)"

definition fitsDeviceDetailsField :: "stdlib \<Rightarrow> string \<Rightarrow> json \<Rightarrow> bool" where
  "fitsDeviceDetailsField lib k v =
     (case findField lib DeviceDetails_tags k of
        None \<Rightarrow> True
      | Some t \<Rightarrow>
          if t = ''about'' then fitsStruct (fitsAboutField lib) v
          else if t = ''control'' then fitsStruct (fitsControlField lib) v
          else fitsStruct (fitsStatusField lib) v)"

definition fitsDeviceDetails :: "stdlib \<Rightarrow> json \<Rightarrow> bool" where
  "fitsDeviceDetails lib = fitsStruct (fitsDeviceDetailsField lib)"

subsection \<open>Examples\<close>

text \<open>
  \<open>exampleLib\<close> tabulates the standard library on the inputs of the examples: the
  response bodies the examples use with the JSON values they denote (any other body stands
  for one the decoder rejects), the floats 0, 21.5 and 70 with their literals, ASCII case
  folding, ASCII strings (valid UTF-8 as they are), a URL rejected for a control character,
  a decoder that reads the whole of a short body, and a fresh HTTP client without a network.
\<close>

definition devicesBody :: string where
  \<open>devicesBody = ''[{"id":"d1","name":"Dock","attachments":[]}]''\<close>

definition partialBody :: string where
  \<open>partialBody = ''{"about":{"model":"Dock Pro"},"status":1}''\<close>

definition exampleScan :: "string \<Rightarrow> string + json" where
  "exampleScan b =
     (if b = ''null'' then Inr JNull
      else if b = ''[]'' then Inr (JArray [])
      else if b = ''{}'' then Inr (JObject [])
      else if b = devicesBody then
        Inr (JArray [JObject [(''id'', JString ''d1''), (''name'', JString ''Dock''),
                              (''attachments'', JArray [])]])
      else if b = partialBody then
        Inr (JObject [(''about'', JObject [(''model'', JString ''Dock Pro'')]),
                      (''status'', JNumber ''1'')])
      else Inl ''invalid character'')"

definition asciiUpper :: "char \<Rightarrow> char" where
  "asciiUpper c =
     (case map_of (zip ''abcdefghijklmnopqrstuvwxyz'' ''ABCDEFGHIJKLMNOPQRSTUVWXYZ'') c of
        Some u \<Rightarrow> u
      | None \<Rightarrow> c)"

definition exampleParseFloat :: "string \<Rightarrow> float64 option" where
  "exampleParseFloat lit =
     map_of [(''0'', 0), (''21.5'', 0x4035800000000000), (''70'', 0x4051800000000000)] lit"

definition exampleFormatFloat :: "float64 \<Rightarrow> string" where
  "exampleFormatFloat f =
     (if f = 0x4035800000000000 then ''21.5'' else if f = 0x4051800000000000 then ''70'' else ''0'')"

definition exampleLib :: stdlib where
  "exampleLib =
     \<lparr>url_ParseError =
        (\<lambda>u. if list_ex (\<lambda>c. (of_char c :: nat) < 32 \<or> (of_char c :: nat) = 127) u
             then Some ''net/url: invalid control character in URL'' else None),
      http_NewClient = (\<lambda>req. Inl ''dial tcp: no network''),
      json_scan = exampleScan,
      json_readLen = length,
      json_foldName = map asciiUpper,
      json_validString = (\<lambda>x. x),
      strconv_ParseFloat = exampleParseFloat,
      strconv_FormatFloat = exampleFormatFloat\<rparr>"

text \<open>A client whose transport answers every request with the same response.\<close>

definition mockClient :: "Response \<Rightarrow> Client" where
  "mockClient resp =
     \<lparr>APIEndpoint = ''https://api.example.test/v1'', token = ''abc'', HTTPClient = (\<lambda>req. Inr resp)\<rparr>"

definition exampleDetails :: DeviceDetails where
  "exampleDetails =
     \<lparr>About = \<lparr>About_FirmwareVersion = ''5.39.2134'', About_IpAddress = ''192.168.1.20'',
               About_LanAddress = ''192.168.1.20'', About_MacAddress = ''b4:8a:0a:00:00:01'',
               About_Model = ''Dock Pro'', About_SerialNumber = ''1234''\<rparr>,
      Control = \<lparr>Control_BrightnessLevel = 100, Control_DisplayTemperatureUnit = ''f'',
                 Control_SetTemperatureC = 21, Control_SetTemperatureF = 70,
                 Control_ThermalControlStatus = ''standby'', Control_TimeZone = ''UTC''\<rparr>,
      Status = \<lparr>Status_IsConnected = True, Status_IsWaterLow = False, Status_WaterLevel = 100,
                Status_WaterTemperatureF = 70, Status_WaterTemperatureC = 0x4035800000000000\<rparr>\<rparr>"

text \<open>
  Three options for \<open>New\<close>: one sets the endpoint, one fails, and one sends a request
  to the endpoint of the client it is given and succeeds whatever the answer.
\<close>

definition WithEndpoint :: "string \<Rightarrow> option_func" where
  "WithEndpoint e c = (Inr (c\<lparr>APIEndpoint := e\<rparr>), [])"

definition failingOption :: option_func where
  "failingOption c = (Inl (OtherError ''bad option''), [])"

definition probeRequest :: "Client \<Rightarrow> Request" where
  "probeRequest c =
     \<lparr>Method = ''GET'', URL = APIEndpoint c @ ''/devices'', Header = Map.empty, ReqBody = None,
      Ctx = Background\<rparr>"

definition probingOption :: option_func where
  "probingOption c = (Inr c, [Sent (probeRequest c)])"

subsection \<open>What the proofs say of a store function\<close>

text \<open>
  \<open>stores st fit\<close>: the Go value \<open>st\<close> stores does not depend on the error remembered
  so far, a remembered error is kept, a new error is remembered exactly when the JSON value
  does not fit, and that error is an \<open>UnmarshalTypeError\<close>.
\<close>

definition stores ::
  "(json \<Rightarrow> 'a \<Rightarrow> error option \<Rightarrow> 'a \<times> error option) \<Rightarrow> (json \<Rightarrow> bool) \<Rightarrow> bool" where
  "stores st fit =
     (\<forall>v cur. (\<forall>s. fst (st v cur s) = fst (st v cur None))
            \<and> (\<forall>e. snd (st v cur (Some e)) = Some e)
            \<and> ((snd (st v cur None) = None) = fit v)
            \<and> (\<forall>e. snd (st v cur None) = Some e \<longrightarrow> (\<exists>x. e = UnmarshalTypeError x)))"

text \<open>The errors of the JSON decoder.\<close>

fun isDecodeError :: "error \<Rightarrow> bool" where
  "isDecodeError (SyntaxError m) = True"
| "isDecodeError (UnmarshalTypeError x) = True"
| "isDecodeError e = False"

section \<open>Properties\<close>

subsection \<open>Decimal integers are read back as they were written\<close>

lemma digit_val_digit_char: "d < 10 \<Longrightarrow> digit_val (digit_char d) = Some d"
proof -
  assume "d < 10"
  then have "d \<in> {0, 1, 2, 3, 4, 5, 6, 7, 8, 9}" by auto
  then show ?thesis
    by (auto simp: digit_char_def digit_val_def)
qed

lemma digit_char_not_sign: "d < 10 \<Longrightarrow> digit_char d \<noteq> CHR ''-'' \<and> digit_char d \<noteq> CHR ''+''"
proof -
  assume "d < 10"
  then have "d \<in> {0, 1, 2, 3, 4, 5, 6, 7, 8, 9}" by auto
  then show ?thesis
    by (auto simp: digit_char_def)
qed

lemma parseDigits_formatDecimal: "parseDigits (formatDecimal n acc) 0 = parseDigits acc n"
proof (induction n acc rule: formatDecimal.induct)
  case (1 n acc)
  show ?case
  proof (cases "n < 10")
    case True
    then show ?thesis by (simp add: formatDecimal.simps[of n] digit_val_digit_char)
  next
    case False
    have "parseDigits (formatDecimal n acc) 0 =
          parseDigits (formatDecimal (n div 10) (digit_char (n mod 10) # acc)) 0"
      using False by (simp add: formatDecimal.simps[of n])
    also have "\<dots> = parseDigits (digit_char (n mod 10) # acc) (n div 10)"
      using 1 False by simp
    also have "\<dots> = parseDigits acc n"
      by (simp add: digit_val_digit_char)
    finally show ?thesis .
  qed
qed

lemma formatDecimal_head: "\<exists>d rest. d < 10 \<and> formatDecimal n acc = digit_char d # rest"
proof (induction n acc rule: formatDecimal.induct)
  case (1 n acc)
  show ?case
  proof (cases "n < 10")
    case True
    then show ?thesis by (auto simp: formatDecimal.simps[of n])
  next
    case False
    then show ?thesis using 1 by (simp add: formatDecimal.simps[of n])
  qed
qed

lemma ParseInt_Itoa: "- (2 ^ 63) \<le> i \<Longrightarrow> i < 2 ^ 63 \<Longrightarrow> ParseInt (Itoa i) = Some i"
proof -
  assume lo: "- (2 ^ 63) \<le> i" and hi: "i < 2 ^ 63"
  show ?thesis
  proof (cases "i < 0")
    case True
    obtain d rest where d: "d < 10" "formatDecimal (nat (- i)) [] = digit_char d # rest"
      using formatDecimal_head by blast
    have p: "parseDigits (formatDecimal (nat (- i)) []) 0 = Some (nat (- i))"
      by (simp add: parseDigits_formatDecimal)
    show ?thesis
      using True lo hi d p by (simp add: ParseInt_def Itoa_def)
  next
    case False
    obtain d rest where d: "d < 10" "formatDecimal (nat i) [] = digit_char d # rest"
      using formatDecimal_head by blast
    have p: "parseDigits (formatDecimal (nat i) []) 0 = Some (nat i)"
      by (simp add: parseDigits_formatDecimal)
    show ?thesis
      using False lo hi d p digit_char_not_sign[OF d(1)] by (simp add: ParseInt_def Itoa_def)
  qed
qed

lemma storeInt_encodeInt: "storeInt (encodeInt w) cur s = (w, s)"
proof -
  have "ParseInt (Itoa (sint w)) = Some (sint w)"
    using sint_ge[of w] sint_lt[of w] by (intro ParseInt_Itoa) simp_all
  then show ?thesis by (simp add: storeInt_def encodeInt_def)
qed

subsection \<open>Events\<close>

lemma requests_append: "requests (es @ es') = requests es @ requests es'"
  by (induction es rule: requests.induct) simp_all

lemma bytesRead_append: "bytesRead (es @ es') = bytesRead es + bytesRead es'"
  by (induction es rule: bytesRead.induct) simp_all

subsection \<open>Client construction\<close>

lemma upt_Suc_shift: "map f [0..<Suc n] = f 0 # map (\<lambda>i. f (Suc i)) [0..<n]"
proof -
  have "[0..<Suc n] = 0 # map Suc [0..<n]"
    by (simp add: upt_conv_Cons map_Suc_upt del: upt_Suc)
  then show ?thesis by (simp add: comp_def del: upt_Suc)
qed

lemma applyOpts_all_succeed:
  "length cs = Suc (length opts) \<Longrightarrow>
   (\<forall>i<length opts. fst ((opts ! i) (cs ! i)) = Inr (cs ! Suc i)) \<Longrightarrow>
   applyOpts opts (cs ! 0) =
     (Inr (last cs), concat (map (\<lambda>i. snd ((opts ! i) (cs ! i))) [0..<length opts]))"
proof (induction opts arbitrary: cs)
  case Nil
  then obtain c where "cs = [c]" by (cases cs) auto
  then show ?case by simp
next
  case (Cons opt opts)
  then obtain c0 cs' where cs: "cs = c0 # cs'" by (cases cs) auto
  have len: "length cs' = Suc (length opts)" using Cons.prems(1) cs by simp
  have first: "fst (opt c0) = Inr (cs' ! 0)" using Cons.prems(2) cs by force
  have rest: "\<forall>i<length opts. fst ((opts ! i) (cs' ! i)) = Inr (cs' ! Suc i)"
  proof (intro allI impI)
    fix i assume "i < length opts"
    then have "fst (((opt # opts) ! Suc i) (cs ! Suc i)) = Inr (cs ! Suc (Suc i))"
      using Cons.prems(2) by auto
    then show "fst ((opts ! i) (cs' ! i)) = Inr (cs' ! Suc i)" using cs by simp
  qed
  have "cs' \<noteq> []" using len by auto
  then have l: "last cs = last cs'" using cs by simp
  have tr: "concat (map (\<lambda>i. snd (((opt # opts) ! i) (cs ! i))) [0..<length (opt # opts)])
          = snd (opt c0) @ concat (map (\<lambda>i. snd ((opts ! i) (cs' ! i))) [0..<length opts])"
    using cs by (simp add: upt_Suc_shift del: upt_Suc)
  obtain es where o: "opt c0 = (Inr (cs' ! 0), es)" using first by (cases "opt c0") auto
  show ?case
    unfolding tr l using Cons.IH[OF len rest] o cs by simp
qed

lemma applyOpts_first_failure:
  "k < length opts \<Longrightarrow> length cs = Suc k \<Longrightarrow>
   (\<forall>i<k. fst ((opts ! i) (cs ! i)) = Inr (cs ! Suc i)) \<Longrightarrow>
   fst ((opts ! k) (cs ! k)) = Inl e \<Longrightarrow>
   applyOpts opts (cs ! 0) = (Inl e, concat (map (\<lambda>i. snd ((opts ! i) (cs ! i))) [0..<Suc k]))"
proof (induction opts arbitrary: cs k)
  case Nil
  then show ?case by simp
next
  case (Cons opt opts)
  obtain c0 cs' where cs: "cs = c0 # cs'" using Cons.prems(2) by (cases cs) auto
  show ?case
  proof (cases k)
    case 0
    obtain es where o: "opt c0 = (Inl e, es)"
      using Cons.prems(4) cs 0 by (cases "opt c0") auto
    show ?thesis using o cs 0 by simp
  next
    case (Suc k')
    have len: "length cs' = Suc k'" using Cons.prems(2) cs Suc by simp
    have klt: "k' < length opts" using Cons.prems(1) Suc by simp
    have first: "fst (opt c0) = Inr (cs' ! 0)" using Cons.prems(3) cs Suc by force
    have rest: "\<forall>i<k'. fst ((opts ! i) (cs' ! i)) = Inr (cs' ! Suc i)"
    proof (intro allI impI)
      fix i assume "i < k'"
      then have "fst (((opt # opts) ! Suc i) (cs ! Suc i)) = Inr (cs ! Suc (Suc i))"
        using Cons.prems(3) Suc by auto
      then show "fst ((opts ! i) (cs' ! i)) = Inr (cs' ! Suc i)" using cs by simp
    qed
    have fail: "fst ((opts ! k') (cs' ! k')) = Inl e" using Cons.prems(4) cs Suc by simp
    have tr: "concat (map (\<lambda>i. snd (((opt # opts) ! i) (cs ! i))) [0..<Suc k])
            = snd (opt c0) @ concat (map (\<lambda>i. snd ((opts ! i) (cs' ! i))) [0..<Suc k'])"
      unfolding Suc using cs by (simp add: upt_Suc_shift[of _ "Suc k'"] del: upt_Suc)
    obtain es where o: "opt c0 = (Inr (cs' ! 0), es)" using first by (cases "opt c0") auto
    show ?thesis
      unfolding tr using Cons.IH[OF klt len rest fail] o cs by simp
  qed
qed

lemma applyOpts_no_request:
  "(\<forall>opt\<in>set opts. \<forall>c. requests (snd (opt c)) = []) \<Longrightarrow> requests (snd (applyOpts opts c)) = []"
proof (induction opts arbitrary: c)
  case Nil
  then show ?case by simp
next
  case (Cons opt opts)
  have a: "requests (snd (opt c)) = []" using Cons.prems by simp
  have b: "requests (snd (applyOpts opts c')) = []" for c' using Cons by simp
  show ?case
    using a b by (auto simp: case_prod_beta requests_append split: sum.splits prod.splits)
qed

text \<open>
  Claim C7. \<open>New\<close> starts from the client with the production endpoint, the given token
  and a fresh HTTP client, and calls the options in the order given, each on the client the
  option before it left. With no option it returns that client and has no event. When every
  option succeeds (\<open>cs\<close> lists the clients between the options) it returns the client
  the last option left and no error, and its events are the events of the calls of all the
  options, in order. When the option at position \<open>k\<close> is the first to fail, it returns
  no client and that option's error, and its events are the events of the calls of the options
  at positions 0 to \<open>k\<close>, whatever the options after position \<open>k\<close> are and would
  do: they are not called. \<open>New\<close> has no event of its own: when no option sends a request,
  construction sends none.
\<close>

theorem New_options_in_order:
  assumes c0: "c0 = \<lparr>APIEndpoint = ProductionAPIEndpoint, token = tok, HTTPClient = http_NewClient lib\<rparr>"
  shows "New lib tok [] = ((Some c0, None), [])
       \<and> (\<forall>opts cs. length cs = Suc (length opts) \<and> cs ! 0 = c0
             \<and> (\<forall>i<length opts. fst ((opts ! i) (cs ! i)) = Inr (cs ! Suc i))
            \<longrightarrow> New lib tok opts =
                  ((Some (last cs), None),
                   concat (map (\<lambda>i. snd ((opts ! i) (cs ! i))) [0..<length opts])))
       \<and> (\<forall>opts cs k e. k < length opts \<and> length cs = Suc k \<and> cs ! 0 = c0
             \<and> (\<forall>i<k. fst ((opts ! i) (cs ! i)) = Inr (cs ! Suc i))
             \<and> fst ((opts ! k) (cs ! k)) = Inl e
            \<longrightarrow> New lib tok opts =
                  ((None, Some e), concat (map (\<lambda>i. snd ((opts ! i) (cs ! i))) [0..<Suc k])))
       \<and> (\<forall>opts. (\<forall>opt\<in>set opts. \<forall>c. requests (snd (opt c)) = [])
            \<longrightarrow> requests (snd (New lib tok opts)) = [])"
proof (intro conjI allI impI)
  show "New lib tok [] = ((Some c0, None), [])"
    by (simp add: New_def c0)
next
  fix opts :: "option_func list" and cs
  assume h: "length cs = Suc (length opts) \<and> cs ! 0 = c0
             \<and> (\<forall>i<length opts. fst ((opts ! i) (cs ! i)) = Inr (cs ! Suc i))"
  then have "applyOpts opts c0 =
      (Inr (last cs), concat (map (\<lambda>i. snd ((opts ! i) (cs ! i))) [0..<length opts]))"
    using applyOpts_all_succeed[of cs opts] by auto
  then show "New lib tok opts =
      ((Some (last cs), None), concat (map (\<lambda>i. snd ((opts ! i) (cs ! i))) [0..<length opts]))"
    by (simp add: New_def c0)
next
  fix opts :: "option_func list" and cs k e
  assume h: "k < length opts \<and> length cs = Suc k \<and> cs ! 0 = c0
             \<and> (\<forall>i<k. fst ((opts ! i) (cs ! i)) = Inr (cs ! Suc i))
             \<and> fst ((opts ! k) (cs ! k)) = Inl e"
  then have "applyOpts opts c0 =
      (Inl e, concat (map (\<lambda>i. snd ((opts ! i) (cs ! i))) [0..<Suc k]))"
    using applyOpts_first_failure[of k opts cs e] by auto
  then show "New lib tok opts =
      ((None, Some e), concat (map (\<lambda>i. snd ((opts ! i) (cs ! i))) [0..<Suc k]))"
    by (simp add: New_def c0)
next
  fix opts :: "option_func list"
  assume "\<forall>opt\<in>set opts. \<forall>c. requests (snd (opt c)) = []"
  then have "requests (snd (applyOpts opts c0)) = []"
    by (rule applyOpts_no_request)
  then show "requests (snd (New lib tok opts)) = []"
    by (simp add: New_def c0 Let_def case_prod_beta split: sum.splits)
qed

theorem New_options_in_order_witness:
  "New exampleLib ''abc'' [] =
     ((Some \<lparr>APIEndpoint = ''https://api.developer.sleep.me/v1'', token = ''abc'',
             HTTPClient = http_NewClient exampleLib\<rparr>, None), [])
   \<and> New exampleLib ''abc'' [WithEndpoint ''https://api.example.test/v1'', probingOption] =
     ((Some \<lparr>APIEndpoint = ''https://api.example.test/v1'', token = ''abc'',
             HTTPClient = http_NewClient exampleLib\<rparr>, None),
      [Sent \<lparr>Method = ''GET'', URL = ''https://api.example.test/v1/devices'', Header = Map.empty,
             ReqBody = None, Ctx = Background\<rparr>])
   \<and> New exampleLib ''abc'' [probingOption, failingOption, probingOption, WithEndpoint ''x''] =
     ((None, Some (OtherError ''bad option'')),
      [Sent \<lparr>Method = ''GET'', URL = ''https://api.developer.sleep.me/v1/devices'',
             Header = Map.empty, ReqBody = None, Ctx = Background\<rparr>])
   \<and> requests (snd (New exampleLib ''abc'' [WithEndpoint ''https://api.example.test/v1'', failingOption])) = []"
proof -
  define c0 where "c0 = \<lparr>APIEndpoint = ProductionAPIEndpoint, token = ''abc'', HTTPClient = http_NewClient exampleLib\<rparr>"
  define c1 where "c1 = c0\<lparr>APIEndpoint := ''https://api.example.test/v1''\<rparr>"
  define os1 where "os1 = [WithEndpoint ''https://api.example.test/v1'', probingOption]"
  define os2 where "os2 = [probingOption, failingOption, probingOption, WithEndpoint ''x'']"
  define os3 where "os3 = [WithEndpoint ''https://api.example.test/v1'', failingOption]"
  note t = New_options_in_order[of c0 "''abc''" exampleLib, OF c0_def]
  have a: "New exampleLib ''abc'' [] = ((Some c0, None), [])" using t by blast
  have "length [c0, c1, c1] = Suc (length os1) \<and> [c0, c1, c1] ! 0 = c0
      \<and> (\<forall>i<length os1. fst ((os1 ! i) ([c0, c1, c1] ! i)) = Inr ([c0, c1, c1] ! Suc i))"
    by (simp add: os1_def WithEndpoint_def probingOption_def c1_def less_Suc_eq)
  then have "New exampleLib ''abc'' os1 =
      ((Some (last [c0, c1, c1]), None),
       concat (map (\<lambda>i. snd ((os1 ! i) ([c0, c1, c1] ! i))) [0..<length os1]))"
    using t by blast
  then have b: "New exampleLib ''abc'' os1 = ((Some c1, None), [Sent (probeRequest c1)])"
    by (simp add: os1_def WithEndpoint_def probingOption_def)
  have "(1::nat) < length os2 \<and> length [c0, c0] = Suc 1 \<and> [c0, c0] ! 0 = c0
      \<and> (\<forall>i<1. fst ((os2 ! i) ([c0, c0] ! i)) = Inr ([c0, c0] ! Suc i))
      \<and> fst ((os2 ! 1) ([c0, c0] ! 1)) = Inl (OtherError ''bad option'')"
    by (simp add: os2_def probingOption_def failingOption_def)
  then have "New exampleLib ''abc'' os2 =
      ((None, Some (OtherError ''bad option'')),
       concat (map (\<lambda>i. snd ((os2 ! i) ([c0, c0] ! i))) [0..<Suc 1]))"
    using t by blast
  then have c: "New exampleLib ''abc'' os2 =
      ((None, Some (OtherError ''bad option'')), [Sent (probeRequest c0)])"
    by (simp add: os2_def probingOption_def failingOption_def)
  have "\<forall>opt\<in>set os3. \<forall>c. requests (snd (opt c)) = []"
    by (simp add: os3_def WithEndpoint_def failingOption_def)
  then have d: "requests (snd (New exampleLib ''abc'' os3)) = []"
    using t by blast
  show ?thesis
    using a b c d
    by (simp add: os1_def os2_def os3_def c0_def c1_def ProductionAPIEndpoint_def probeRequest_def)
qed

subsection \<open>Store functions\<close>

lemma storesI:
  assumes "\<And>v cur s. fst (st v cur s) = fst (st v cur None)"
    and "\<And>v cur e. snd (st v cur (Some e)) = Some e"
    and "\<And>v cur. (snd (st v cur None) = None) = fit v"
    and "\<And>v cur e. snd (st v cur None) = Some e \<Longrightarrow> \<exists>x. e = UnmarshalTypeError x"
  shows "stores st fit"
  using assms unfolding stores_def by blast

lemma stores_fst: "stores st fit \<Longrightarrow> fst (st v cur s) = fst (st v cur None)"
  unfolding stores_def by blast

lemma stores_keep: "stores st fit \<Longrightarrow> snd (st v cur (Some e)) = Some e"
  unfolding stores_def by blast

lemma stores_fit: "stores st fit \<Longrightarrow> (snd (st v cur None) = None) = fit v"
  unfolding stores_def by blast

lemma stores_kind: "stores st fit \<Longrightarrow> snd (st v cur None) = Some e \<Longrightarrow> \<exists>x. e = UnmarshalTypeError x"
  unfolding stores_def by blast

lemma stores_snd_None: "stores st fit \<Longrightarrow> (snd (st v cur s) = None) = (s = None \<and> fit v)"
  by (cases s) (simp_all add: stores_fit stores_keep)

lemma stores_snd_kind:
  "stores st fit \<Longrightarrow> snd (st v cur s) = Some e \<Longrightarrow> s = Some e \<or> (\<exists>x. e = UnmarshalTypeError x)"
  by (cases s) (auto simp: stores_keep dest: stores_kind)

lemma stores_storeString: "stores storeString fitsString"
  by (rule storesI) (auto simp: storeString_def fitsString_def saveError_def split: json.splits)

lemma stores_storeBool: "stores storeBool fitsBool"
  by (rule storesI) (auto simp: storeBool_def fitsBool_def saveError_def split: json.splits)

lemma stores_storeInt: "stores storeInt fitsInt"
  by (rule storesI) (auto simp: storeInt_def fitsInt_def saveError_def split: json.splits option.splits)

lemma stores_storeFloat: "stores (storeFloat lib) (fitsFloat lib)"
  by (rule storesI) (auto simp: storeFloat_def fitsFloat_def saveError_def split: json.splits option.splits)

lemma storeElems_fst:
  "stores st fit \<Longrightarrow> fst (storeElems st z xs s) = map (\<lambda>x. fst (st x z None)) xs"
proof (induction xs arbitrary: s)
  case Nil
  then show ?case by simp
next
  case (Cons x xs)
  show ?case
    using Cons.IH[OF Cons.prems] stores_fst[OF Cons.prems, of x z s]
    by (simp add: case_prod_beta)
qed

lemma storeElems_keep:
  "stores st fit \<Longrightarrow> snd (storeElems st z xs (Some e)) = Some e"
proof (induction xs)
  case Nil
  then show ?case by simp
next
  case (Cons x xs)
  have "snd (st x z (Some e)) = Some e"
    using stores_keep[OF Cons.prems] .
  then show ?case using Cons.IH[OF Cons.prems] by (simp add: case_prod_beta)
qed

lemma storeElems_fit:
  "stores st fit \<Longrightarrow> (snd (storeElems st z xs None) = None) = list_all fit xs"
proof (induction xs)
  case Nil
  then show ?case by simp
next
  case (Cons x xs)
  show ?case
  proof (cases "snd (st x z None)")
    case None
    then have "fit x" using stores_fit[OF Cons.prems, of x z] by simp
    then show ?thesis using None Cons.IH[OF Cons.prems] by (simp add: case_prod_beta)
  next
    case (Some e)
    then have "\<not> fit x" using stores_fit[OF Cons.prems, of x z] by simp
    then show ?thesis using Some storeElems_keep[OF Cons.prems] by (simp add: case_prod_beta)
  qed
qed

lemma storeElems_kind:
  "stores st fit \<Longrightarrow> snd (storeElems st z xs None) = Some e \<Longrightarrow> \<exists>x. e = UnmarshalTypeError x"
proof (induction xs)
  case Nil
  then show ?case by simp
next
  case (Cons x xs)
  show ?case
  proof (cases "snd (st x z None)")
    case None
    then show ?thesis using Cons by (simp add: case_prod_beta)
  next
    case (Some e')
    then have "snd (storeElems st z (x # xs) None) = Some e'"
      using storeElems_keep[OF Cons.prems(1)] by (simp add: case_prod_beta)
    then show ?thesis using Cons.prems(2) stores_kind[OF Cons.prems(1) Some] by simp
  qed
qed

lemma stores_storeSlice: "stores st fit \<Longrightarrow> stores (storeSlice st z) (fitsSlice fit)"
proof (rule storesI)
  assume st: "stores st fit"
  show "fst (storeSlice st z v cur s) = fst (storeSlice st z v cur None)" for v cur s
    by (cases v) (simp_all add: storeSlice_def case_prod_beta storeElems_fst[OF st])
  show "snd (storeSlice st z v cur (Some e)) = Some e" for v cur e
    by (cases v) (simp_all add: storeSlice_def case_prod_beta storeElems_keep[OF st] saveError_def)
  show "(snd (storeSlice st z v cur None) = None) = fitsSlice fit v" for v cur
    by (cases v) (simp_all add: storeSlice_def fitsSlice_def case_prod_beta storeElems_fit[OF st] saveError_def)
  show "\<exists>x. e = UnmarshalTypeError x" if "snd (storeSlice st z v cur None) = Some e" for v cur e
    using that storeElems_kind[OF st]
    by (cases v) (auto simp: storeSlice_def case_prod_beta saveError_def)
qed

lemma storeMembers_fst:
  "(\<And>k. stores (f k) (fit k)) \<Longrightarrow> fst (storeMembers f kvs a s) = fst (storeMembers f kvs a None)"
proof (induction kvs arbitrary: a s)
  case Nil
  then show ?case by simp
next
  case (Cons kv kvs)
  obtain k v where kv: "kv = (k, v)" by (cases kv)
  have a: "fst (f k v a s) = fst (f k v a None)" using stores_fst[OF Cons.prems] .
  have "fst (storeMembers f (kv # kvs) a s) = fst (storeMembers f kvs (fst (f k v a s)) (snd (f k v a s)))"
    by (simp add: kv case_prod_beta)
  also have "\<dots> = fst (storeMembers f kvs (fst (f k v a None)) None)"
    using Cons.IH[OF Cons.prems] a by simp
  also have "\<dots> = fst (storeMembers f kvs (fst (f k v a None)) (snd (f k v a None)))"
    using Cons.IH[OF Cons.prems, of "fst (f k v a None)" "snd (f k v a None)"] by simp
  finally show ?case by (simp add: kv case_prod_beta)
qed

lemma storeMembers_keep:
  "(\<And>k. stores (f k) (fit k)) \<Longrightarrow> snd (storeMembers f kvs a (Some e)) = Some e"
proof (induction kvs arbitrary: a)
  case Nil
  then show ?case by simp
next
  case (Cons kv kvs)
  obtain k v where kv: "kv = (k, v)" by (cases kv)
  have "snd (f k v a (Some e)) = Some e" using stores_keep[OF Cons.prems] .
  then show ?case using Cons.IH[OF Cons.prems] by (simp add: kv case_prod_beta)
qed

lemma storeMembers_fit:
  "(\<And>k. stores (f k) (fit k)) \<Longrightarrow>
   (snd (storeMembers f kvs a None) = None) = list_all (\<lambda>(k, x). fit k x) kvs"
proof (induction kvs arbitrary: a)
  case Nil
  then show ?case by simp
next
  case (Cons kv kvs)
  obtain k v where kv: "kv = (k, v)" by (cases kv)
  show ?case
  proof (cases "snd (f k v a None)")
    case None
    then have "fit k v" using stores_fit[OF Cons.prems, of k v a] by simp
    then show ?thesis using None Cons.IH[OF Cons.prems] by (simp add: kv case_prod_beta)
  next
    case (Some e)
    then have "\<not> fit k v" using stores_fit[OF Cons.prems, of k v a] by simp
    then show ?thesis
      using Some storeMembers_keep[OF Cons.prems] by (simp add: kv case_prod_beta)
  qed
qed

lemma storeMembers_kind:
  "(\<And>k. stores (f k) (fit k)) \<Longrightarrow> snd (storeMembers f kvs a None) = Some e \<Longrightarrow>
   \<exists>x. e = UnmarshalTypeError x"
proof (induction kvs arbitrary: a)
  case Nil
  then show ?case by simp
next
  case (Cons kv kvs)
  obtain k v where kv: "kv = (k, v)" by (cases kv)
  show ?case
  proof (cases "snd (f k v a None)")
    case None
    then show ?thesis using Cons.IH[OF Cons.prems(1)] Cons.prems(2) by (simp add: kv case_prod_beta)
  next
    case (Some e')
    then have "snd (storeMembers f (kv # kvs) a None) = Some e'"
      using storeMembers_keep[OF Cons.prems(1)] by (simp add: kv case_prod_beta)
    then show ?thesis using Cons.prems(2) stores_kind[OF Cons.prems(1) Some] by simp
  qed
qed

lemma stores_storeStruct:
  assumes f: "\<And>k. stores (f k) (fit k)"
  shows "stores (storeStruct f) (fitsStruct fit)"
proof (rule storesI)
  show "fst (storeStruct f v cur s) = fst (storeStruct f v cur None)" for v cur s
    using storeMembers_fst[OF f] by (cases v) (simp_all add: storeStruct_def)
  show "snd (storeStruct f v cur (Some e)) = Some e" for v cur e
    using storeMembers_keep[OF f] by (cases v) (simp_all add: storeStruct_def saveError_def)
  show "(snd (storeStruct f v cur None) = None) = fitsStruct fit v" for v cur
    using storeMembers_fit[OF f] by (cases v) (simp_all add: storeStruct_def fitsStruct_def saveError_def)
  show "\<exists>x. e = UnmarshalTypeError x" if "snd (storeStruct f v cur None) = Some e" for v cur e
    using that storeMembers_kind[OF f]
    by (cases v) (auto simp: storeStruct_def saveError_def)
qed

lemma field_fst:
  "stores st fit \<Longrightarrow> fst (case st v c s of (x, s1) \<Rightarrow> (h x, s1)) = h (fst (st v c None))"
  using stores_fst[of st fit v c s] by (simp add: case_prod_beta)

lemma field_snd: "snd (case p of (x, s1) \<Rightarrow> (h x, s1)) = snd p"
  by (simp add: case_prod_beta)

lemma findField_tags: "findField lib tags k = Some t \<Longrightarrow> t \<in> set tags"
  by (auto simp: findField_def find_Some_iff split: if_splits)

lemmas stores_strings = stores_storeSlice[OF stores_storeString]

lemma stores_storeDeviceField: "stores (storeDeviceField lib k) (fitsDeviceField lib k)"
  by (rule storesI)
     (auto simp: storeDeviceField_def fitsDeviceField_def Let_def field_snd
        field_fst[OF stores_storeString] field_fst[OF stores_strings]
        stores_keep[OF stores_storeString] stores_keep[OF stores_strings]
        stores_fit[OF stores_storeString] stores_fit[OF stores_strings]
      split: option.splits if_splits
      dest: stores_kind[OF stores_storeString] stores_kind[OF stores_strings]
      dest!: findField_tags[where tags = Device_tags, unfolded Device_tags_def])

lemma stores_storeDevice: "stores (storeDevice lib) (fitsStruct (fitsDeviceField lib))"
  unfolding storeDevice_def by (rule stores_storeStruct) (rule stores_storeDeviceField)

lemma stores_storeDevices: "stores (storeDevices lib) (fitsDevices lib)"
  unfolding storeDevices_def fitsDevices_def by (rule stores_storeSlice) (rule stores_storeDevice)

lemma stores_storeAboutField: "stores (storeAboutField lib k) (fitsAboutField lib k)"
proof (cases "findField lib About_tags k")
  case None
  then show ?thesis by (intro storesI) (simp_all add: storeAboutField_def fitsAboutField_def)
next
  case (Some t)
  then have "t \<in> set About_tags" by (rule findField_tags)
  then have t: "t = ''firmware_version'' \<or> t = ''ip_address'' \<or> t = ''lan_address''
           \<or> t = ''mac_address'' \<or> t = ''model'' \<or> t = ''serial_number''"
    by (simp add: About_tags_def)
  show ?thesis
    using t unfolding storeAboutField_def fitsAboutField_def Some
    by (intro storesI)
       (auto simp: Let_def field_snd field_fst[OF stores_storeString]
          stores_keep[OF stores_storeString] stores_fit[OF stores_storeString]
        dest: stores_kind[OF stores_storeString])
qed

lemma stores_storeControlField: "stores (storeControlField lib k) (fitsControlField lib k)"
proof (cases "findField lib Control_tags k")
  case None
  then show ?thesis by (intro storesI) (simp_all add: storeControlField_def fitsControlField_def)
next
  case (Some t)
  then have "t \<in> set Control_tags" by (rule findField_tags)
  then have t: "t = ''brightness_level'' \<or> t = ''display_temperature_unit'' \<or> t = ''set_temperature_c''
           \<or> t = ''set_temperature_f'' \<or> t = ''thermal_control_status'' \<or> t = ''time_zone''"
    by (simp add: Control_tags_def)
  show ?thesis
    using t unfolding storeControlField_def fitsControlField_def Some
    by (intro storesI)
       (auto simp: Let_def field_snd field_fst[OF stores_storeString] field_fst[OF stores_storeInt]
          stores_keep[OF stores_storeString] stores_fit[OF stores_storeString]
          stores_keep[OF stores_storeInt] stores_fit[OF stores_storeInt]
        dest: stores_kind[OF stores_storeString] stores_kind[OF stores_storeInt])
qed

lemma stores_storeStatusField: "stores (storeStatusField lib k) (fitsStatusField lib k)"
proof (cases "findField lib Status_tags k")
  case None
  then show ?thesis by (intro storesI) (simp_all add: storeStatusField_def fitsStatusField_def)
next
  case (Some t)
  then have "t \<in> set Status_tags" by (rule findField_tags)
  then have t: "t = ''is_connected'' \<or> t = ''is_water_low'' \<or> t = ''water_level''
           \<or> t = ''water_temperature_f'' \<or> t = ''water_temperature_c''"
    by (simp add: Status_tags_def)
  show ?thesis
    using t unfolding storeStatusField_def fitsStatusField_def Some
    by (intro storesI)
       (auto simp: Let_def field_snd field_fst[OF stores_storeBool] field_fst[OF stores_storeInt]
          field_fst[OF stores_storeFloat]
          stores_keep[OF stores_storeBool] stores_fit[OF stores_storeBool]
          stores_keep[OF stores_storeInt] stores_fit[OF stores_storeInt]
          stores_keep[OF stores_storeFloat] stores_fit[OF stores_storeFloat]
        dest: stores_kind[OF stores_storeBool] stores_kind[OF stores_storeInt]
          stores_kind[OF stores_storeFloat])
qed

lemmas stores_About = stores_storeStruct[of "storeAboutField lib" "fitsAboutField lib", OF stores_storeAboutField] for lib
lemmas stores_Control = stores_storeStruct[of "storeControlField lib" "fitsControlField lib", OF stores_storeControlField] for lib
lemmas stores_Status = stores_storeStruct[of "storeStatusField lib" "fitsStatusField lib", OF stores_storeStatusField] for lib

lemma stores_storeDeviceDetailsField:
  "stores (storeDeviceDetailsField lib k) (fitsDeviceDetailsField lib k)"
proof (cases "findField lib DeviceDetails_tags k")
  case None
  then show ?thesis
    by (intro storesI) (simp_all add: storeDeviceDetailsField_def fitsDeviceDetailsField_def)
next
  case (Some t)
  then have "t \<in> set DeviceDetails_tags" by (rule findField_tags)
  then have t: "t = ''about'' \<or> t = ''control'' \<or> t = ''status''"
    by (simp add: DeviceDetails_tags_def)
  show ?thesis
    using t unfolding storeDeviceDetailsField_def fitsDeviceDetailsField_def Some
    by (intro storesI)
       (auto simp: Let_def field_snd field_fst[OF stores_About] field_fst[OF stores_Control]
          field_fst[OF stores_Status]
          stores_keep[OF stores_About] stores_fit[OF stores_About]
          stores_keep[OF stores_Control] stores_fit[OF stores_Control]
          stores_keep[OF stores_Status] stores_fit[OF stores_Status]
        dest: stores_kind[OF stores_About] stores_kind[OF stores_Control]
          stores_kind[OF stores_Status])
qed

lemma stores_storeDeviceDetails: "stores (storeDeviceDetails lib) (fitsDeviceDetails lib)"
  unfolding storeDeviceDetails_def fitsDeviceDetails_def
  by (rule stores_storeStruct) (rule stores_storeDeviceDetailsField)

subsection \<open>The three operations, statement by statement\<close>

lemma ListDevices_unfold:
  "ListDevices lib c ctx =
     (let req = \<lparr>Method = ''GET'', URL = APIEndpoint c @ ''/devices'',
                  Header = [''Accept'' \<mapsto> [''application/json''],
                            ''Authorization'' \<mapsto> [''Bearer '' @ token c]],
                  ReqBody = None, Ctx = ctx\<rparr>
      in case url_ParseError lib (APIEndpoint c @ ''/devices'') of
           Some m \<Rightarrow> ((None, Some (UrlError m)), [])
         | None \<Rightarrow>
             (case HTTPClient c req of
                Inl m \<Rightarrow> ((None, Some (TransportError m)), [Sent req])
              | Inr resp \<Rightarrow>
                  if StatusCode resp \<noteq> 200 then
                    ((None, Some (Errorf (''expected 200, got '' @ Itoa (StatusCode resp)))),
                     [Sent req, CloseBody])
                  else
                    (Decode lib (storeDevices lib) (Body resp) None,
                     [Sent req, ReadBody (json_readLen lib (Body resp)), CloseBody])))"
  by (simp add: ListDevices_def NewRequest_def Header_Set_def WithContext_def StatusOK_def Let_def
      split: option.splits sum.splits)

lemma Get_unfold:
  "Get lib c ctx deviceID =
     (let req = \<lparr>Method = ''GET'', URL = APIEndpoint c @ ''/devices/'' @ deviceID,
                  Header = [''Accept'' \<mapsto> [''application/json''],
                            ''Authorization'' \<mapsto> [''Bearer '' @ token c]],
                  ReqBody = None, Ctx = ctx\<rparr>
      in case url_ParseError lib (APIEndpoint c @ ''/devices/'' @ deviceID) of
           Some m \<Rightarrow> ((None, Some (UrlError m)), [])
         | None \<Rightarrow>
             (case HTTPClient c req of
                Inl m \<Rightarrow> ((None, Some (TransportError m)), [Sent req])
              | Inr resp \<Rightarrow>
                  if StatusCode resp \<noteq> 200 then
                    ((None, Some (Errorf (''expected 200, got '' @ Itoa (StatusCode resp)))),
                     [Sent req, CloseBody])
                  else
                    ((Some (fst (Decode lib (storeDeviceDetails lib) (Body resp) DeviceDetails_zero)),
                      snd (Decode lib (storeDeviceDetails lib) (Body resp) DeviceDetails_zero)),
                     [Sent req, ReadBody (json_readLen lib (Body resp)), CloseBody])))"
  by (simp add: Get_def NewRequest_def Header_Set_def WithContext_def StatusOK_def Let_def
        case_prod_beta
      split: option.splits sum.splits)

lemma Update_unfold:
  "Update lib c ctx deviceID r =
     (case Encode_UpdateRequest lib r of
        Inl err \<Rightarrow> (Some err, [])
      | Inr bs \<Rightarrow>
          (let req = \<lparr>Method = ''PATCH'', URL = APIEndpoint c @ ''/devices/'' @ deviceID,
                       Header = [''Content-Type'' \<mapsto> [''application/json''],
                                 ''Authorization'' \<mapsto> [''Bearer '' @ token c]],
                       ReqBody = Some bs, Ctx = ctx\<rparr>
           in case url_ParseError lib (APIEndpoint c @ ''/devices/'' @ deviceID) of
                Some m \<Rightarrow> (Some (UrlError m), [])
              | None \<Rightarrow>
                  (case HTTPClient c req of
                     Inl m \<Rightarrow> (Some (TransportError m), [Sent req])
                   | Inr resp \<Rightarrow>
                       if StatusCode resp \<noteq> 200 then
                         (Some (Errorf (''expected 200, got '' @ Itoa (StatusCode resp))),
                          [Sent req, CloseBody])
                       else (None, [Sent req, CloseBody]))))"
  by (simp add: Update_def NewRequest_def Header_Set_def WithContext_def StatusOK_def Let_def
      split: option.splits sum.splits)

subsection \<open>Status codes other than 200\<close>

text \<open>
  Claim C1. In each of the three operations: when the operation has sent its request
  \<open>req\<close>, the HTTP client has answered it with the response \<open>resp\<close>, and the status
  code of \<open>resp\<close> is not 200, the operation returns the error made by
  \<open>fmt.Errorf("expected 200, got %d", resp.StatusCode)\<close>, whose message ends with the
  status code in decimal, and no decoded value: a nil slice from \<open>ListDevices\<close>, a nil
  pointer from \<open>Get\<close> (\<open>Update\<close> returns the error alone).
\<close>

theorem non200_status_error:
  "(\<forall>req resp. requests (snd (ListDevices lib c ctx)) = [req] \<and> HTTPClient c req = Inr resp
       \<and> StatusCode resp \<noteq> 200
      \<longrightarrow> fst (ListDevices lib c ctx) =
            (None, Some (Errorf (''expected 200, got '' @ Itoa (StatusCode resp)))))
   \<and> (\<forall>req resp. requests (snd (Get lib c ctx deviceID)) = [req] \<and> HTTPClient c req = Inr resp
       \<and> StatusCode resp \<noteq> 200
      \<longrightarrow> fst (Get lib c ctx deviceID) =
            (None, Some (Errorf (''expected 200, got '' @ Itoa (StatusCode resp)))))
   \<and> (\<forall>req resp. requests (snd (Update lib c ctx deviceID r)) = [req] \<and> HTTPClient c req = Inr resp
       \<and> StatusCode resp \<noteq> 200
      \<longrightarrow> fst (Update lib c ctx deviceID r) =
            Some (Errorf (''expected 200, got '' @ Itoa (StatusCode resp))))"
proof (intro conjI allI impI)
  fix req resp
  assume "requests (snd (ListDevices lib c ctx)) = [req] \<and> HTTPClient c req = Inr resp
          \<and> StatusCode resp \<noteq> 200"
  then show "fst (ListDevices lib c ctx) =
            (None, Some (Errorf (''expected 200, got '' @ Itoa (StatusCode resp))))"
    by (auto simp: ListDevices_unfold Let_def split: option.splits sum.splits if_splits)
next
  fix req resp
  assume "requests (snd (Get lib c ctx deviceID)) = [req] \<and> HTTPClient c req = Inr resp
          \<and> StatusCode resp \<noteq> 200"
  then show "fst (Get lib c ctx deviceID) =
            (None, Some (Errorf (''expected 200, got '' @ Itoa (StatusCode resp))))"
    by (auto simp: Get_unfold Let_def split: option.splits sum.splits if_splits)
next
  fix req resp
  assume "requests (snd (Update lib c ctx deviceID r)) = [req] \<and> HTTPClient c req = Inr resp
          \<and> StatusCode resp \<noteq> 200"
  then show "fst (Update lib c ctx deviceID r) =
            Some (Errorf (''expected 200, got '' @ Itoa (StatusCode resp)))"
    by (auto simp: Update_unfold Let_def split: option.splits sum.splits if_splits)
qed

lemma example_url_ok:
  "url_ParseError exampleLib ''https://api.example.test/v1/devices'' = None"
  "url_ParseError exampleLib ''https://api.example.test/v1/devices/unknown'' = None"
  "url_ParseError exampleLib ''https://api.example.test/v1/devices/d1'' = None"
  by (simp_all add: exampleLib_def)

lemma Itoa_examples:
  "Itoa 401 = ''401''" "Itoa 404 = ''404''" "Itoa 500 = ''500''"
  by (simp_all add: Itoa_def formatDecimal.simps digit_char_def)

lemma example_encode_empty:
  "Encode_UpdateRequest exampleLib
     \<lparr>ThermalControlStatus = None, SetTemperatureF = None, SetTemperatureC = None,
      DisplayTemperatureUnit = None, TimeZone = None\<rparr> = Inr (JObject [])"
  by (simp add: Encode_UpdateRequest_def encodeStruct_def)

theorem non200_status_error_witness:
  "fst (ListDevices exampleLib (mockClient \<lparr>StatusCode = 401, Body = ''unauthorized''\<rparr>) Background)
     = (None, Some (Errorf ''expected 200, got 401''))
   \<and> fst (Get exampleLib (mockClient \<lparr>StatusCode = 404, Body = ''not found''\<rparr>) Background ''unknown'')
     = (None, Some (Errorf ''expected 200, got 404''))
   \<and> fst (Update exampleLib (mockClient \<lparr>StatusCode = 500, Body = ''''\<rparr>) Background ''d1''
        \<lparr>ThermalControlStatus = None, SetTemperatureF = None, SetTemperatureC = None,
         DisplayTemperatureUnit = None, TimeZone = None\<rparr>)
     = Some (Errorf ''expected 200, got 500'')"
proof -
  define r0 where "r0 = \<lparr>ThermalControlStatus = None, SetTemperatureF = None, SetTemperatureC = None,
         DisplayTemperatureUnit = None, TimeZone = None\<rparr>"
  define c1 where "c1 = mockClient \<lparr>StatusCode = 401, Body = ''unauthorized''\<rparr>"
  define c2 where "c2 = mockClient \<lparr>StatusCode = 404, Body = ''not found''\<rparr>"
  define c3 where "c3 = mockClient \<lparr>StatusCode = 500, Body = ''''\<rparr>"
  define q1 where "q1 = \<lparr>Method = ''GET'', URL = ''https://api.example.test/v1/devices'',
      Header = [''Accept'' \<mapsto> [''application/json''], ''Authorization'' \<mapsto> [''Bearer abc'']],
      ReqBody = None, Ctx = Background\<rparr>"
  define q2 where "q2 = \<lparr>Method = ''GET'', URL = ''https://api.example.test/v1/devices/unknown'',
      Header = [''Accept'' \<mapsto> [''application/json''], ''Authorization'' \<mapsto> [''Bearer abc'']],
      ReqBody = None, Ctx = Background\<rparr>"
  define q3 where "q3 = \<lparr>Method = ''PATCH'', URL = ''https://api.example.test/v1/devices/d1'',
      Header = [''Content-Type'' \<mapsto> [''application/json''], ''Authorization'' \<mapsto> [''Bearer abc'']],
      ReqBody = Some (JObject []), Ctx = Background\<rparr>"
  have "requests (snd (ListDevices exampleLib c1 Background)) = [q1]
        \<and> HTTPClient c1 q1 = Inr \<lparr>StatusCode = 401, Body = ''unauthorized''\<rparr>
        \<and> StatusCode \<lparr>StatusCode = 401, Body = ''unauthorized''\<rparr> \<noteq> 200"
    by (simp add: ListDevices_unfold c1_def q1_def mockClient_def example_url_ok)
  then have a: "fst (ListDevices exampleLib c1 Background) =
      (None, Some (Errorf (''expected 200, got '' @ Itoa (StatusCode \<lparr>StatusCode = 401, Body = ''unauthorized''\<rparr>))))"
    using non200_status_error[where lib = exampleLib and c = c1 and ctx = Background] by blast
  have "requests (snd (Get exampleLib c2 Background ''unknown'')) = [q2]
        \<and> HTTPClient c2 q2 = Inr \<lparr>StatusCode = 404, Body = ''not found''\<rparr>
        \<and> StatusCode \<lparr>StatusCode = 404, Body = ''not found''\<rparr> \<noteq> 200"
    by (simp add: Get_unfold c2_def q2_def mockClient_def example_url_ok)
  then have b: "fst (Get exampleLib c2 Background ''unknown'') =
      (None, Some (Errorf (''expected 200, got '' @ Itoa (StatusCode \<lparr>StatusCode = 404, Body = ''not found''\<rparr>))))"
    using non200_status_error[where lib = exampleLib and c = c2 and ctx = Background and deviceID = "''unknown''"] by blast
  have "requests (snd (Update exampleLib c3 Background ''d1'' r0)) = [q3]
        \<and> HTTPClient c3 q3 = Inr \<lparr>StatusCode = 500, Body = ''''\<rparr>
        \<and> StatusCode \<lparr>StatusCode = 500, Body = ''''\<rparr> \<noteq> 200"
    by (simp add: Update_unfold c3_def q3_def r0_def mockClient_def example_url_ok example_encode_empty)
  then have c: "fst (Update exampleLib c3 Background ''d1'' r0) =
      Some (Errorf (''expected 200, got '' @ Itoa (StatusCode \<lparr>StatusCode = 500, Body = ''''\<rparr>)))"
    using non200_status_error[where lib = exampleLib and c = c3 and ctx = Background and deviceID = "''d1''" and r = r0] by blast
  show ?thesis
    using a b c by (simp add: c1_def c2_def c3_def r0_def Itoa_examples)
qed

end
